theory Spec2Isabelle
  imports Main
begin

section \<open>JavaScript values\<close>

text \<open>
  Route identifiers and query parameters are JavaScript values that are either a string or
  \<^verbatim>\<open>undefined\<close>: they are modelled as \<^typ>\<open>string option\<close>. The components test them
  with \<^verbatim>\<open>if (x)\<close>, \<^verbatim>\<open>!x\<close>, \<^verbatim>\<open>x && ...\<close> and \<^verbatim>\<open>x || ...\<close>, that is by truthiness:
  \<^verbatim>\<open>undefined\<close> and the empty string are falsy, every other string is truthy.
\<close>

definition truthy :: "string option \<Rightarrow> bool" where
  "truthy x = (case x of None \<Rightarrow> False | Some s \<Rightarrow> s \<noteq> [])"

section \<open>Asynchronous resources\<close>

text \<open>
  Modelled from the spec: \<^verbatim>\<open>async-request-status\<close> and \<^verbatim>\<open>resources/manifest-resource\<close>
  are imported by the components but are not among the source files. The spec gives
  \<^verbatim>\<open>{ status: PENDING|SUCCESS|ERROR, value: T|null, error: ErrorInfo|null }\<close>.
  A \<^verbatim>\<open>null\<close> field is \<^term>\<open>None\<close>.
\<close>

datatype status = PENDING | SUCCESS | ERROR

record ('v, 'e) resource =
  status :: status
  "value" :: "'v option"
  error :: "'e option"

text \<open>
  Modelled from the spec: the invariant of the data model, "exactly one of value/error is
  populated, and only when status is SUCCESS/ERROR respectively". A resource is created
  PENDING with neither field populated, a SUCCESS resource carries its value and no error,
  an ERROR resource carries its error and no value. The record type alone does not tie the
  fields to the status; the resources the store holds satisfy the invariant.
\<close>

definition resource_invariant :: "('v, 'e) resource \<Rightarrow> bool" where
  "resource_invariant r =
     (case status r of
        PENDING \<Rightarrow> value r = None \<and> error r = None
      | SUCCESS \<Rightarrow> value r \<noteq> None \<and> error r = None
      | ERROR \<Rightarrow> value r = None \<and> error r \<noteq> None)"

section \<open>ManifestDisplay\<close>

text \<open>
  The props of \<^verbatim>\<open>ManifestDisplay\<close>: the landing page passes \<^verbatim>\<open>manifestRequest\<close> and
  \<^verbatim>\<open>manifestId\<close>. An omitted \<^verbatim>\<open>manifestRequest\<close> is \<^term>\<open>None\<close>.
\<close>

record ('v, 'e) ManifestDisplay_props =
  md_manifestRequest :: "('v, 'e) resource option"
  md_manifestId :: "string option"

text \<open>
  The three elements \<^verbatim>\<open>ManifestDisplay.render\<close> can return:
  \<^item> \<^verbatim>\<open><div className="container"><ErrorAlert error={req.error} /></div>\<close>
  \<^item> \<^verbatim>\<open><div className="container"><p>Loading...</p></div>\<close>
  \<^item> \<^verbatim>\<open><ManifestViewer manifestInfo={req.value} />\<close>

  The props handed to \<^verbatim>\<open>ErrorAlert\<close> and \<^verbatim>\<open>ManifestViewer\<close> are kept as the possibly
  \<^verbatim>\<open>null\<close> fields they are read from.
\<close>

datatype ('v, 'e) display =
    ErrorContainer "'e option"
  | LoadingContainer
  | ManifestViewer "'v option"

text \<open>
  \<^verbatim>\<open>render()\<close>: first \<^verbatim>\<open>req && req.status === ERROR\<close>, then \<^verbatim>\<open>!req || !req.value\<close>,
  then the viewer. The status is compared with \<^verbatim>\<open>ERROR\<close> only.
\<close>

definition ManifestDisplay_render :: "('v, 'e) ManifestDisplay_props \<Rightarrow> ('v, 'e) display" where
  "ManifestDisplay_render props =
     (let req = md_manifestRequest props in
      case req of
        None \<Rightarrow> LoadingContainer
      | Some r \<Rightarrow>
          if status r = ERROR then ErrorContainer (error r)
          else if value r = None then LoadingContainer
          else ManifestViewer (value r))"

text \<open>The render path an element belongs to.\<close>

datatype branch = LoadingBranch | ErrorBranch | SuccessBranch

fun branch_of :: "('v, 'e) display \<Rightarrow> branch" where
  "branch_of (ErrorContainer e) = ErrorBranch"
| "branch_of LoadingContainer = LoadingBranch"
| "branch_of (ManifestViewer v) = SuccessBranch"

section \<open>Routes and dispatched actions\<close>

text \<open>
  The router hands a container \<^verbatim>\<open>params\<close> (with the optional \<^verbatim>\<open>manifestId\<close> of
  \<^verbatim>\<open>/manifests/:manifestId\<close>) and \<^verbatim>\<open>location\<close> (with \<^verbatim>\<open>pathname\<close> and the parsed
  query string, of which the components read \<^verbatim>\<open>q\<close> and \<^verbatim>\<open>m\<close>).
\<close>

record query_params =
  q :: "string option"
  m :: "string option"

record location =
  pathname :: string
  query :: query_params

record params =
  manifestId :: "string option"

text \<open>
  Modelled from the spec: the action creators \<^verbatim>\<open>action-creators/manifest\<close> and
  \<^verbatim>\<open>action-creators/search\<close> are not among the source files; the spec takes actions as
  opaque descriptors consumed by the store. \<^verbatim>\<open>replaceState\<close> is the router library's
  action creator. An action records the call that built it:
  \<^item> \<^verbatim>\<open>ManifestActions.request({ id })\<close>
  \<^item> \<^verbatim>\<open>Search.request({ query })\<close>
  \<^item> \<^verbatim>\<open>replaceState(null, pathname)\<close> and \<^verbatim>\<open>replaceState(null, pathname, { q: query })\<close>

  \<^verbatim>\<open>this.props.dispatch(a)\<close> is an effect: each method returns the list of the actions it
  dispatched, in order.
\<close>

datatype action =
    ManifestRequest "string option"
  | SearchRequest "string option"
  | ReplaceState string "query_params option"

section \<open>LandingPage\<close>

text \<open>
  The object the selector returns, \<^verbatim>\<open>{ manifestRequest: ... }\<close>, and the props of the
  connected component, which are the router's props merged with it. The router's own props
  are the same record with \<^verbatim>\<open>manifestRequest\<close> undefined.
\<close>

record ('v, 'e) selected =
  manifestRequest :: "('v, 'e) resource option"

record ('v, 'e) LandingPage_props = "('v, 'e) selected" +
  params :: params
  location :: location

text \<open>
  A component instance. Besides \<^verbatim>\<open>this.props\<close>, \<^verbatim>\<open>componentDidMount\<close> reads the instance
  property \<^verbatim>\<open>this.manifestRequest\<close>. The class has no constructor and no method assigns
  that property, so on every instance React creates it is \<^verbatim>\<open>undefined\<close>.
\<close>

record ('v, 'e) LandingPage =
  props :: "('v, 'e) LandingPage_props"
  instance_manifestRequest :: "('v, 'e) resource option"

definition new_LandingPage :: "('v, 'e) LandingPage_props \<Rightarrow> ('v, 'e) LandingPage" where
  "new_LandingPage p = \<lparr>props = p, instance_manifestRequest = None\<rparr>"

definition loadManifest :: "string option \<Rightarrow> action list" where
  "loadManifest ident = [ManifestRequest ident]"

definition componentDidMount :: "('v, 'e) LandingPage \<Rightarrow> action list" where
  "componentDidMount this =
     (if truthy (manifestId (params (props this))) \<and> instance_manifestRequest this = None
      then loadManifest (manifestId (params (props this)))
      else [])"

definition componentWillReceiveProps ::
  "('v, 'e) LandingPage \<Rightarrow> ('v, 'e) LandingPage_props \<Rightarrow> action list" where
  "componentWillReceiveProps this nextProps =
     (if truthy (manifestId (params nextProps)) \<and>
         manifestId (params nextProps) \<noteq> manifestId (params (props this))
      then loadManifest (manifestId (params nextProps))
      else [])"

text \<open>
  What \<^verbatim>\<open>LandingPage.render\<close> returns: the root with the navbar (given the location), the
  children and the footer. The children are either the landing container, whose
  recent-items section with the cascade is present or not, or the manifest-detail row, with
  the search-results container (given the location) present or not, followed by the right
  panel. The right panel is a \<^verbatim>\<open>ManifestDisplay\<close> element or the click helper.
\<close>

datatype ('v, 'e) panel =
    ManifestDisplay "('v, 'e) ManifestDisplay_props"
  | ClickHelper

datatype ('v, 'e) children =
    LandingContainer bool
  | ManifestDetail "location option" "('v, 'e) panel"

datatype ('v, 'e) page = Root location "('v, 'e) children"

definition renderLanding :: "('v, 'e) LandingPage \<Rightarrow> ('v, 'e) children" where
  "renderLanding this =
     LandingContainer (\<not> truthy (q (query (location (props this)))) \<and>
                       \<not> truthy (m (query (location (props this)))))"

definition renderManifest :: "('v, 'e) LandingPage \<Rightarrow> ('v, 'e) panel" where
  "renderManifest this =
     (if truthy (manifestId (params (props this)))
      then ManifestDisplay \<lparr>md_manifestRequest = manifestRequest (props this),
                            md_manifestId = manifestId (params (props this))\<rparr>
      else ClickHelper)"

definition renderResults :: "('v, 'e) LandingPage \<Rightarrow> ('v, 'e) children" where
  "renderResults this =
     (let rightPanel = renderManifest this in
      ManifestDetail
        (if truthy (q (query (location (props this)))) \<or>
            truthy (m (query (location (props this))))
         then Some (location (props this)) else None)
        rightPanel)"

definition LandingPage_render :: "('v, 'e) LandingPage \<Rightarrow> ('v, 'e) page" where
  "LandingPage_render this =
     (let children =
        (if truthy (q (query (location (props this)))) \<or>
            truthy (m (query (location (props this)))) \<or>
            truthy (manifestId (params (props this)))
         then renderResults this
         else renderLanding this)
      in Root (location (props this)) children)"

section \<open>The store and the memoised selectors\<close>

text \<open>
  Modelled from the spec: the store and its reducers are not among the source files. The
  selectors read three slices of the global state: \<^verbatim>\<open>state.manifests\<close> and
  \<^verbatim>\<open>state.search\<close>, the resource maps, which they query with \<^verbatim>\<open>.get(key)\<close> (\<^verbatim>\<open>undefined\<close>
  when the map has no entry for the key; the key itself may be \<^verbatim>\<open>undefined\<close>), and
  \<^verbatim>\<open>state.router.location\<close>.
\<close>

record router_state =
  router_location :: location

record ('v, 'e, 'r) state =
  manifests :: "string option \<rightharpoonup> ('v, 'e) resource"
  search :: "string option \<rightharpoonup> 'r"
  router :: router_state

text \<open>
  \<^verbatim>\<open>createSelector(dep1, ..., depN, resultFunc)\<close> of the reselect library evaluates the
  dependencies on \<^verbatim>\<open>(state, props)\<close> and passes their values to a memoised
  \<^verbatim>\<open>resultFunc\<close>: a cache of one entry keeps the last arguments and the last result, and
  the result function runs again only when an argument differs from the cached one. The
  cache is state of the selector, so a memoised function takes the cache and returns the
  new one beside its result. (The library compares the arguments by identity; equal
  arguments give equal results, so comparing by value yields the same values.)
\<close>

type_synonym ('a, 'b) memo = "('a \<times> 'b) option"

definition defaultMemoize :: "('a \<Rightarrow> 'b) \<Rightarrow> ('a, 'b) memo \<Rightarrow> 'a \<Rightarrow> 'b \<times> ('a, 'b) memo" where
  "defaultMemoize func cache args =
     (case cache of
        None \<Rightarrow> (func args, Some (args, func args))
      | Some (lastArgs, lastResult) \<Rightarrow>
          if lastArgs = args then (lastResult, cache)
          else (func args, Some (args, func args)))"

text \<open>The selector of the landing page.\<close>

definition selector ::
  "((string option \<rightharpoonup> ('v, 'e) resource) \<times> string option, ('v, 'e) selected) memo \<Rightarrow>
   ('v, 'e, 'r) state \<Rightarrow> ('v, 'e) LandingPage_props \<Rightarrow>
   ('v, 'e) selected \<times>
   ((string option \<rightharpoonup> ('v, 'e) resource) \<times> string option, ('v, 'e) selected) memo" where
  "selector cache state ownProps =
     defaultMemoize (\<lambda>(ms, ident). \<lparr>manifestRequest = ms ident\<rparr>) cache
       (manifests state, manifestId (params ownProps))"

text \<open>
  \<^verbatim>\<open>@connect(selector)\<close>: the props of the mounted component are the router's props merged
  with the selector's result. Mounting creates the instance and runs
  \<^verbatim>\<open>componentDidMount\<close> on it.
\<close>

definition LandingPage_connect ::
  "((string option \<rightharpoonup> ('v, 'e) resource) \<times> string option, ('v, 'e) selected) memo \<Rightarrow>
   ('v, 'e, 'r) state \<Rightarrow> ('v, 'e) LandingPage_props \<Rightarrow> ('v, 'e) LandingPage_props" where
  "LandingPage_connect cache state ownProps =
     ownProps\<lparr>manifestRequest := manifestRequest (fst (selector cache state ownProps))\<rparr>"

definition LandingPage_mount ::
  "((string option \<rightharpoonup> ('v, 'e) resource) \<times> string option, ('v, 'e) selected) memo \<Rightarrow>
   ('v, 'e, 'r) state \<Rightarrow> ('v, 'e) LandingPage_props \<Rightarrow> action list" where
  "LandingPage_mount cache state ownProps =
     componentDidMount (new_LandingPage (LandingPage_connect cache state ownProps))"

text \<open>
  The cache of \<^verbatim>\<open>selector\<close> after a history of calls, the latest first: it is empty when the
  module is loaded, and each call leaves the cache it returns.
\<close>

fun selector_cache ::
  "(('v, 'e, 'r) state \<times> ('v, 'e) LandingPage_props) list \<Rightarrow>
   ((string option \<rightharpoonup> ('v, 'e) resource) \<times> string option, ('v, 'e) selected) memo" where
  "selector_cache [] = None"
| "selector_cache (call # earlier) =
     snd (selector (selector_cache earlier) (fst call) (snd call))"

section \<open>SearchPageContainer\<close>

text \<open>The props of the search page are the object \<^verbatim>\<open>getState\<close> returns.\<close>

record 'r SearchPage_props =
  sp_query :: "string option"
  sp_results :: "'r option"
  sp_pathname :: string

definition getQuery :: "('v, 'e, 'r) state \<Rightarrow> string option" where
  "getQuery state = q (query (router_location (router state)))"

definition getSearchResults ::
  "(string option \<times> (string option \<rightharpoonup> 'r), 'r option) memo \<Rightarrow> ('v, 'e, 'r) state \<Rightarrow>
   'r option \<times> (string option \<times> (string option \<rightharpoonup> 'r), 'r option) memo" where
  "getSearchResults cache state =
     defaultMemoize (\<lambda>(qu, se). se qu) cache (getQuery state, search state)"

text \<open>
  \<^verbatim>\<open>getState\<close> has a cache of its own and calls \<^verbatim>\<open>getSearchResults\<close>, which has one too:
  the pair of caches is threaded through.
\<close>

type_synonym 'r getState_caches =
  "(string option \<times> (string option \<rightharpoonup> 'r), 'r option) memo \<times>
   (string option \<times> 'r option \<times> string, 'r SearchPage_props) memo"

definition getState ::
  "'r getState_caches \<Rightarrow> ('v, 'e, 'r) state \<Rightarrow> 'r SearchPage_props \<times> 'r getState_caches" where
  "getState caches state =
     (let (res, c1) = getSearchResults (fst caches) state;
          (out, c2) =
            defaultMemoize
              (\<lambda>(qu, rs, pn). \<lparr>sp_query = qu, sp_results = rs, sp_pathname = pn\<rparr>)
              (snd caches)
              (getQuery state, res, pathname (router_location (router state)))
      in (out, (c1, c2)))"

fun getState_cache :: "('v, 'e, 'r) state list \<Rightarrow> 'r getState_caches" where
  "getState_cache [] = (None, None)"
| "getState_cache (state # earlier) = snd (getState (getState_cache earlier) state)"

definition loadQuery :: "'r SearchPage_props \<Rightarrow> string option \<Rightarrow> action list" where
  "loadQuery this_props qu =
     (if \<not> truthy qu then [ReplaceState (sp_pathname this_props) None]
      else [ReplaceState (sp_pathname this_props) (Some \<lparr>q = qu, m = None\<rparr>),
            SearchRequest qu])"

definition SearchPage_componentDidMount :: "'r SearchPage_props \<Rightarrow> action list" where
  "SearchPage_componentDidMount this_props = loadQuery this_props (sp_query this_props)"

text \<open>The change handler of the search input: \<^verbatim>\<open>value\<close> is the text of the input.\<close>

definition onChange :: "'r SearchPage_props \<Rightarrow> string \<Rightarrow> action list" where
  "onChange this_props val = loadQuery this_props (Some val)"

definition SearchPage_mount :: "'r getState_caches \<Rightarrow> ('v, 'e, 'r) state \<Rightarrow> action list" where
  "SearchPage_mount caches state = SearchPage_componentDidMount (fst (getState caches state))"

section \<open>Presentational components\<close>

text \<open>
  \<^verbatim>\<open>ManifestCascadeItemLabel({ manifest })\<close>: the label holds one \<^verbatim>\<open>div\<close>, given here by
  its class and its text.
\<close>

datatype info = Info string string

datatype item_label = ItemLabel info

definition ManifestCascadeItemLabel :: "'m option \<Rightarrow> item_label" where
  "ManifestCascadeItemLabel manifest =
     (let info = (if manifest \<noteq> None then Info ''h4'' ''[Manifest things]''
                  else Info ''h4 text-center'' ''Loading...'')
      in ItemLabel info)"

text \<open>
  \<^verbatim>\<open>Thumbnail({ src })\<close>. The source is a string, a truthy value that is not a string (an
  image description), or a falsy value that is not a string. The helper
  \<^verbatim>\<open>getImageUrlWithMaxWidth\<close> of \<^verbatim>\<open>utils/iiif-manifest-accessors\<close> is not among the source
  files: it is a parameter, which returns \<^verbatim>\<open>null\<close> or an object with a \<^verbatim>\<open>url\<close>, or throws
  (\<^term>\<open>Inl\<close>). The thumbnail is the container with the image, if any, given by its source.
\<close>

datatype 'o thumbnail_src = StringSrc string | ObjectSrc 'o | FalsySrc

record resolved =
  url :: "string option"

definition MAX_THUMBNAIL_WIDTH :: nat where
  "MAX_THUMBNAIL_WIDTH = 100"

datatype thumbnail = ThumbnailDiv "string option"

definition Thumbnail ::
  "('o \<Rightarrow> nat \<Rightarrow> 'x + resolved option) \<Rightarrow> 'o thumbnail_src \<Rightarrow> 'x + thumbnail" where
  "Thumbnail getImageUrlWithMaxWidth src =
     (case (case src of
              StringSrc s \<Rightarrow> Inr (Some s)
            | ObjectSrc ob \<Rightarrow>
                (case getImageUrlWithMaxWidth ob MAX_THUMBNAIL_WIDTH of
                   Inl exn \<Rightarrow> Inl exn
                 | Inr None \<Rightarrow> Inr None
                 | Inr (Some res) \<Rightarrow> Inr (url res))
            | FalsySrc \<Rightarrow> Inr None) of
        Inl exn \<Rightarrow> Inl exn
      | Inr imgSrc \<Rightarrow> Inr (ThumbnailDiv (if truthy imgSrc then imgSrc else None)))"

section \<open>Cache coherence and example inputs\<close>

text \<open>
  A cache is coherent with the memoised function when the result it keeps is the
  function's result on the arguments it keeps.
\<close>

definition memo_ok :: "('a \<Rightarrow> 'b) \<Rightarrow> ('a, 'b) memo \<Rightarrow> bool" where
  "memo_ok func cache = (case cache of None \<Rightarrow> True | Some (lastArgs, lastResult) \<Rightarrow> lastResult = func lastArgs)"

text \<open>
  Concrete stores and routes, used where a property is evaluated at an input.
\<close>

abbreviation loaded_resource :: "(string, string) resource" where
  "loaded_resource \<equiv> \<lparr>status = SUCCESS, value = Some ''manifest'', error = None\<rparr>"

abbreviation cat_state :: "(string, string, string) state" where
  "cat_state \<equiv>
     \<lparr>manifests = [Some ''42'' \<mapsto> loaded_resource],
      search = [Some ''cat'' \<mapsto> ''cat results''],
      router = \<lparr>router_location =
        \<lparr>pathname = ''/search'', query = \<lparr>q = Some ''cat'', m = None\<rparr>\<rparr>\<rparr>\<rparr>"

abbreviation dog_state :: "(string, string, string) state" where
  "dog_state \<equiv>
     \<lparr>manifests = [Some ''42'' \<mapsto> loaded_resource,
                   Some ''43'' \<mapsto> \<lparr>status = PENDING, value = None, error = None\<rparr>],
      search = [Some ''cat'' \<mapsto> ''cat results''],
      router = \<lparr>router_location =
        \<lparr>pathname = ''/search'', query = \<lparr>q = Some ''dog'', m = None\<rparr>\<rparr>\<rparr>\<rparr>"

abbreviation blank_state :: "(string, string, string) state" where
  "blank_state \<equiv>
     \<lparr>manifests = Map.empty, search = Map.empty,
      router = \<lparr>router_location =
        \<lparr>pathname = ''/search'', query = \<lparr>q = None, m = None\<rparr>\<rparr>\<rparr>\<rparr>"

abbreviation route :: "string option \<Rightarrow> string option \<Rightarrow> string option \<Rightarrow>
    (string, string) LandingPage_props" where
  "route ident qu mf \<equiv>
     \<lparr>manifestRequest = None, params = \<lparr>manifestId = ident\<rparr>,
      location = \<lparr>pathname = ''/'', query = \<lparr>q = qu, m = mf\<rparr>\<rparr>\<rparr>"

section \<open>Properties of ManifestDisplay\<close>

text \<open>
  C3. The render function is total over the resource states of the data model and every
  result is on exactly one of the three paths. An absent resource renders the loading
  placeholder, and so does a PENDING resource; an ERROR resource renders the error display
  with the resource's error payload, not the loading placeholder; a SUCCESS resource with
  a present value renders the manifest viewer with that value. The render function tells
  PENDING from SUCCESS by the value, so the PENDING case rests on the invariant of the data
  model, under which a PENDING resource carries no value.
\<close>

theorem ManifestDisplay_render_paths:
  "(md_manifestRequest p = None \<longrightarrow> ManifestDisplay_render p = LoadingContainer) \<and>
   (md_manifestRequest p = Some r \<and> resource_invariant r \<and> status r = PENDING
      \<longrightarrow> ManifestDisplay_render p = LoadingContainer) \<and>
   (md_manifestRequest p = Some r \<and> status r = ERROR
      \<longrightarrow> ManifestDisplay_render p = ErrorContainer (error r) \<and>
          ManifestDisplay_render p \<noteq> LoadingContainer) \<and>
   (md_manifestRequest p = Some r \<and> status r = SUCCESS \<and> value r = Some v
      \<longrightarrow> ManifestDisplay_render p = ManifestViewer (Some v)) \<and>
   (ManifestDisplay_render p = LoadingContainer \<or>
    (\<exists>e. ManifestDisplay_render p = ErrorContainer e) \<or>
    (\<exists>v. ManifestDisplay_render p = ManifestViewer (Some v)))"
  by (auto simp: ManifestDisplay_render_def resource_invariant_def Let_def
      split: option.splits)

theorem ManifestDisplay_render_paths_witness:
  "resource_invariant
     \<lparr>status = PENDING, value = None :: string option, error = None :: string option\<rparr> \<and>
   resource_invariant
     \<lparr>status = ERROR, value = None :: string option, error = Some ''not found''\<rparr> \<and>
   resource_invariant
     \<lparr>status = SUCCESS, value = Some ''manifest'', error = None :: string option\<rparr> \<and>
   ManifestDisplay_render
     \<lparr>md_manifestRequest = None :: (string, string) resource option,
      md_manifestId = Some ''42''\<rparr> = LoadingContainer \<and>
   ManifestDisplay_render
     \<lparr>md_manifestRequest = Some \<lparr>status = PENDING, value = None :: string option,
        error = None :: string option\<rparr>, md_manifestId = Some ''42''\<rparr> = LoadingContainer \<and>
   ManifestDisplay_render
     \<lparr>md_manifestRequest = Some \<lparr>status = ERROR, value = None :: string option,
        error = Some ''not found''\<rparr>, md_manifestId = Some ''42''\<rparr>
     = ErrorContainer (Some ''not found'') \<and>
   ManifestDisplay_render
     \<lparr>md_manifestRequest = Some \<lparr>status = SUCCESS, value = Some ''manifest'',
        error = None :: string option\<rparr>, md_manifestId = Some ''42''\<rparr>
     = ManifestViewer (Some ''manifest'')"
proof -
  have pending: "resource_invariant
     \<lparr>status = PENDING, value = None :: string option, error = None :: string option\<rparr>"
    by (simp add: resource_invariant_def)
  have failed: "resource_invariant
     \<lparr>status = ERROR, value = None :: string option, error = Some ''not found''\<rparr>"
    by (simp add: resource_invariant_def)
  have loaded: "resource_invariant
     \<lparr>status = SUCCESS, value = Some ''manifest'', error = None :: string option\<rparr>"
    by (simp add: resource_invariant_def)
  note absent_path = ManifestDisplay_render_paths [where
      p = "\<lparr>md_manifestRequest = None :: (string, string) resource option,
        md_manifestId = Some ''42''\<rparr>"
      and r = "\<lparr>status = PENDING, value = None, error = None\<rparr>" and v = "''manifest''"]
  note pending_path = ManifestDisplay_render_paths [where
      p = "\<lparr>md_manifestRequest = Some \<lparr>status = PENDING, value = None :: string option,
        error = None :: string option\<rparr>, md_manifestId = Some ''42''\<rparr>"
      and r = "\<lparr>status = PENDING, value = None, error = None\<rparr>" and v = "''manifest''"]
  note error_path = ManifestDisplay_render_paths [where
      p = "\<lparr>md_manifestRequest = Some \<lparr>status = ERROR, value = None :: string option,
        error = Some ''not found''\<rparr>, md_manifestId = Some ''42''\<rparr>"
      and r = "\<lparr>status = ERROR, value = None, error = Some ''not found''\<rparr>"
      and v = "''manifest''"]
  note success_path = ManifestDisplay_render_paths [where
      p = "\<lparr>md_manifestRequest = Some \<lparr>status = SUCCESS, value = Some ''manifest'',
        error = None :: string option\<rparr>, md_manifestId = Some ''42''\<rparr>"
      and r = "\<lparr>status = SUCCESS, value = Some ''manifest'', error = None\<rparr>"
      and v = "''manifest''"]
  have "ManifestDisplay_render
     \<lparr>md_manifestRequest = None :: (string, string) resource option,
      md_manifestId = Some ''42''\<rparr> = LoadingContainer"
    using absent_path by simp
  moreover have "ManifestDisplay_render
     \<lparr>md_manifestRequest = Some \<lparr>status = PENDING, value = None :: string option,
        error = None :: string option\<rparr>, md_manifestId = Some ''42''\<rparr> = LoadingContainer"
    using pending_path pending by simp
  moreover have "ManifestDisplay_render
     \<lparr>md_manifestRequest = Some \<lparr>status = ERROR, value = None :: string option,
        error = Some ''not found''\<rparr>, md_manifestId = Some ''42''\<rparr>
     = ErrorContainer (Some ''not found'')"
    using error_path by simp
  moreover have "ManifestDisplay_render
     \<lparr>md_manifestRequest = Some \<lparr>status = SUCCESS, value = Some ''manifest'',
        error = None :: string option\<rparr>, md_manifestId = Some ''42''\<rparr>
     = ManifestViewer (Some ''manifest'')"
    using success_path by simp
  ultimately show ?thesis using pending failed loaded by blast
qed

text \<open>
  C8. The element rendered by ManifestDisplay, and so the branch taken, is determined by
  the resource alone: two invocations whose props carry the same resource take the same
  branch, whatever else the props and the route hold.
\<close>

theorem ManifestDisplay_render_deterministic:
  "md_manifestRequest p1 = md_manifestRequest p2 \<Longrightarrow>
     ManifestDisplay_render p1 = ManifestDisplay_render p2 \<and>
     branch_of (ManifestDisplay_render p1) = branch_of (ManifestDisplay_render p2)"
  by (simp add: ManifestDisplay_render_def)

theorem ManifestDisplay_render_deterministic_witness:
  "branch_of (ManifestDisplay_render
     \<lparr>md_manifestRequest = Some \<lparr>status = ERROR, value = None :: string option,
        error = Some ''not found''\<rparr>, md_manifestId = Some ''42''\<rparr>)
   = branch_of (ManifestDisplay_render
     \<lparr>md_manifestRequest = Some \<lparr>status = ERROR, value = None :: string option,
        error = Some ''not found''\<rparr>, md_manifestId = Some ''43''\<rparr>)"
  using ManifestDisplay_render_deterministic [of
      "\<lparr>md_manifestRequest = Some \<lparr>status = ERROR, value = None :: string option,
        error = Some ''not found''\<rparr>, md_manifestId = Some ''42''\<rparr>"
      "\<lparr>md_manifestRequest = Some \<lparr>status = ERROR, value = None :: string option,
        error = Some ''not found''\<rparr>, md_manifestId = Some ''43''\<rparr>"]
  by simp

text \<open>
  C10. A resource whose status is not ERROR and whose value is absent renders the loading
  placeholder, a SUCCESS resource with a null value included; and whenever the manifest
  viewer is rendered, the value passed to it is the present value of the resource, never
  null.
\<close>

theorem ManifestDisplay_null_value_loading:
  "(md_manifestRequest p = Some r \<and> status r \<noteq> ERROR \<and> value r = None
      \<longrightarrow> ManifestDisplay_render p = LoadingContainer) \<and>
   (ManifestDisplay_render p = ManifestViewer x
      \<longrightarrow> (\<exists>r v. md_manifestRequest p = Some r \<and> value r = Some v \<and> x = Some v))"
  by (auto simp: ManifestDisplay_render_def Let_def split: option.splits if_splits)

theorem ManifestDisplay_null_value_loading_witness:
  "ManifestDisplay_render
     \<lparr>md_manifestRequest = Some \<lparr>status = SUCCESS, value = None :: string option,
        error = None :: string option\<rparr>, md_manifestId = Some ''42''\<rparr> = LoadingContainer \<and>
   (\<exists>r v. md_manifestRequest
       \<lparr>md_manifestRequest = Some \<lparr>status = SUCCESS, value = Some ''manifest'',
          error = None :: string option\<rparr>, md_manifestId = Some ''42''\<rparr> = Some r \<and>
     value r = Some v \<and> Some ''manifest'' = Some v)"
proof -
  have viewer: "ManifestDisplay_render
     \<lparr>md_manifestRequest = Some \<lparr>status = SUCCESS, value = Some ''manifest'',
        error = None :: string option\<rparr>, md_manifestId = Some ''42''\<rparr>
     = ManifestViewer (Some ''manifest'')"
    by (simp add: ManifestDisplay_render_def)
  show ?thesis
    using
      ManifestDisplay_null_value_loading [of
        "\<lparr>md_manifestRequest = Some \<lparr>status = SUCCESS, value = None :: string option,
          error = None :: string option\<rparr>, md_manifestId = Some ''42''\<rparr>"
        "\<lparr>status = SUCCESS, value = None, error = None\<rparr>"]
      ManifestDisplay_null_value_loading [of
        "\<lparr>md_manifestRequest = Some \<lparr>status = SUCCESS, value = Some ''manifest'',
          error = None :: string option\<rparr>, md_manifestId = Some ''42''\<rparr>"
        _ "Some ''manifest''"]
      viewer
    by simp
qed

section \<open>The memoised selectors compute their result functions\<close>

text \<open>
  The cache is empty at first and every call leaves it coherent, so after any history of
  calls a selector returns what its result function gives on the current dependencies.
\<close>

lemma defaultMemoize_result: "memo_ok func cache \<Longrightarrow> fst (defaultMemoize func cache args) = func args"
  by (auto simp: memo_ok_def defaultMemoize_def split: option.splits)

lemma defaultMemoize_cache: "memo_ok func cache \<Longrightarrow> memo_ok func (snd (defaultMemoize func cache args))"
  by (auto simp: memo_ok_def defaultMemoize_def split: option.splits)

lemma selector_cache_ok:
  "memo_ok (\<lambda>(ms, ident). \<lparr>manifestRequest = ms ident\<rparr>) (selector_cache h)"
proof (induction h)
  case Nil
  show ?case by (simp add: memo_ok_def)
next
  case (Cons call earlier)
  then show ?case by (simp add: selector_def defaultMemoize_cache)
qed

lemma selector_result:
  "fst (selector (selector_cache h) state ownProps) =
     \<lparr>manifestRequest = manifests state (manifestId (params ownProps))\<rparr>"
  using defaultMemoize_result [OF selector_cache_ok,
      of h "(manifests state, manifestId (params ownProps))"]
  by (simp add: selector_def)

lemma getState_unfold:
  "getState caches state =
     (fst (defaultMemoize
            (\<lambda>(qu, rs, pn). \<lparr>sp_query = qu, sp_results = rs, sp_pathname = pn\<rparr>)
            (snd caches)
            (getQuery state, fst (getSearchResults (fst caches) state),
             pathname (router_location (router state)))),
      snd (getSearchResults (fst caches) state),
      snd (defaultMemoize
            (\<lambda>(qu, rs, pn). \<lparr>sp_query = qu, sp_results = rs, sp_pathname = pn\<rparr>)
            (snd caches)
            (getQuery state, fst (getSearchResults (fst caches) state),
             pathname (router_location (router state)))))"
  by (simp add: getState_def Let_def split_def)

lemma getState_cache_ok:
  "memo_ok (\<lambda>(qu, se). se qu) (fst (getState_cache h)) \<and>
   memo_ok (\<lambda>(qu, rs, pn). \<lparr>sp_query = qu, sp_results = rs, sp_pathname = pn\<rparr>)
     (snd (getState_cache h))"
proof (induction h)
  case Nil
  show ?case by (simp add: memo_ok_def)
next
  case (Cons state earlier)
  then show ?case
    by (simp add: getState_unfold getSearchResults_def defaultMemoize_cache)
qed

lemma getSearchResults_result:
  "fst (getSearchResults (fst (getState_cache h)) state) = search state (getQuery state)"
  using defaultMemoize_result [OF conjunct1 [OF getState_cache_ok],
      of h "(getQuery state, search state)"]
  by (simp add: getSearchResults_def)

lemma getState_result:
  "fst (getState (getState_cache h) state) =
     \<lparr>sp_query = getQuery state, sp_results = search state (getQuery state),
      sp_pathname = pathname (router_location (router state))\<rparr>"
  using defaultMemoize_result [OF conjunct2 [OF getState_cache_ok],
      of h "(getQuery state, search state (getQuery state),
             pathname (router_location (router state)))"]
  by (simp add: getState_unfold getSearchResults_result)

section \<open>Properties of the containers\<close>

text \<open>
  C1, as the code has it. Mounting the landing page dispatches nothing when the route
  supplies no manifest id (undefined or empty), and dispatches the request for the id when
  the id is present and the resource map has no resource for it. Mounting the search page
  dispatches the search request for the query whenever the query is non-empty, whether or
  not the map already holds results for it, after replacing the location; it dispatches no
  search request when the query is absent. Both hold after any history of selector calls.
\<close>

theorem mount_dispatch:
  "(\<not> truthy (manifestId (params ownProps))
      \<longrightarrow> LandingPage_mount (selector_cache h) state ownProps = []) \<and>
   (truthy (manifestId (params ownProps)) \<and>
    manifests state (manifestId (params ownProps)) = None
      \<longrightarrow> LandingPage_mount (selector_cache h) state ownProps
            = [ManifestRequest (manifestId (params ownProps))]) \<and>
   (\<not> truthy (getQuery state)
      \<longrightarrow> (\<forall>x. SearchRequest x \<notin> set (SearchPage_mount (getState_cache hs) state))) \<and>
   (truthy (getQuery state)
      \<longrightarrow> SearchPage_mount (getState_cache hs) state
            = [ReplaceState (pathname (router_location (router state)))
                 (Some \<lparr>q = getQuery state, m = None\<rparr>),
               SearchRequest (getQuery state)])"
  by (simp add: LandingPage_mount_def LandingPage_connect_def componentDidMount_def
      new_LandingPage_def loadManifest_def SearchPage_mount_def
      SearchPage_componentDidMount_def getState_result loadQuery_def)

theorem mount_dispatch_witness:
  "LandingPage_mount (selector_cache []) cat_state (route None None None) = [] \<and>
   LandingPage_mount (selector_cache [(cat_state, route None None None)]) cat_state
       (route (Some ''7'') None None)
     = [ManifestRequest (Some ''7'')] \<and>
   (\<forall>x. SearchRequest x \<notin> set (SearchPage_mount (getState_cache [cat_state]) blank_state)) \<and>
   SearchPage_mount (getState_cache [cat_state]) dog_state
     = [ReplaceState ''/search'' (Some \<lparr>q = Some ''dog'', m = None\<rparr>),
        SearchRequest (Some ''dog'')]"
proof -
  note absent = mount_dispatch [where ownProps = "route None None None" and h = "[]"
      and state = cat_state and hs = "[cat_state]"]
  note present = mount_dispatch [where ownProps = "route (Some ''7'') None None"
      and h = "[(cat_state, route None None None)]"
      and state = cat_state and hs = "[cat_state]"]
  note blank = mount_dispatch [where ownProps = "route None None None" and h = "[]"
      and state = blank_state and hs = "[cat_state]"]
  note dog = mount_dispatch [where ownProps = "route None None None" and h = "[]"
      and state = dog_state and hs = "[cat_state]"]
  have "LandingPage_mount (selector_cache []) cat_state (route None None None) = []"
    using absent by (simp add: truthy_def)
  moreover have "LandingPage_mount (selector_cache [(cat_state, route None None None)])
      cat_state (route (Some ''7'') None None) = [ManifestRequest (Some ''7'')]"
    using present by (simp add: truthy_def)
  moreover have "\<forall>x. SearchRequest x
      \<notin> set (SearchPage_mount (getState_cache [cat_state]) blank_state)"
    using blank by (simp add: truthy_def getQuery_def)
  moreover have "SearchPage_mount (getState_cache [cat_state]) dog_state
     = [ReplaceState ''/search'' (Some \<lparr>q = Some ''dog'', m = None\<rparr>),
        SearchRequest (Some ''dog'')]"
    using dog by (simp add: truthy_def getQuery_def)
  ultimately show ?thesis by blast
qed

text \<open>
  C1, as stated, fails: the search page is mounted with the query \<^verbatim>\<open>cat\<close> while the
  resource map already holds the results for \<^verbatim>\<open>cat\<close>, and the search request is dispatched
  all the same. \<^verbatim>\<open>componentDidMount\<close> calls \<^verbatim>\<open>_loadQuery\<close> without looking at
  \<^verbatim>\<open>this.props.results\<close>.
\<close>

theorem mount_loaded_counterexample:
  "truthy (getQuery cat_state) \<and>
   search cat_state (getQuery cat_state) = Some ''cat results'' \<and>
   SearchPage_mount (getState_cache []) cat_state
     = [ReplaceState ''/search'' (Some \<lparr>q = Some ''cat'', m = None\<rparr>),
        SearchRequest (Some ''cat'')]"
  by (simp add: SearchPage_mount_def SearchPage_componentDidMount_def getState_def
      getSearchResults_def defaultMemoize_def getQuery_def loadQuery_def truthy_def)

text \<open>
  The landing page has a guard, commented "Load the manifest if it isn't already loaded",
  but the guard reads \<^verbatim>\<open>this.manifestRequest\<close>, which is always undefined, and not
  \<^verbatim>\<open>this.props.manifestRequest\<close>: a manifest that is already in the map is requested
  again on mount.
\<close>

lemma LandingPage_mount_loaded_example:
  "manifests cat_state (manifestId (params (route (Some ''42'') None None)))
     = Some loaded_resource \<and>
   manifestRequest (LandingPage_connect (selector_cache []) cat_state (route (Some ''42'') None None))
     = Some loaded_resource \<and>
   LandingPage_mount (selector_cache []) cat_state (route (Some ''42'') None None)
     = [ManifestRequest (Some ''42'')]"
  by (simp add: LandingPage_mount_def LandingPage_connect_def selector_def
      defaultMemoize_def componentDidMount_def new_LandingPage_def loadManifest_def truthy_def)

text \<open>
  C2. On a route-parameter update of the landing page: when the new manifest id is
  present (a non-empty string) and differs from the previous one, exactly one action is
  dispatched, the request for the new id; when the id is unchanged, or the new id is absent
  (undefined or empty, a present-to-absent transition included), nothing is dispatched.
\<close>

theorem componentWillReceiveProps_dispatch:
  "(truthy (manifestId (params nextProps)) \<and>
    manifestId (params nextProps) \<noteq> manifestId (params (props this))
      \<longrightarrow> componentWillReceiveProps this nextProps
            = [ManifestRequest (manifestId (params nextProps))]) \<and>
   (manifestId (params nextProps) = manifestId (params (props this)) \<or>
    \<not> truthy (manifestId (params nextProps))
      \<longrightarrow> componentWillReceiveProps this nextProps = [])"
  by (simp add: componentWillReceiveProps_def loadManifest_def)

theorem componentWillReceiveProps_dispatch_witness:
  "componentWillReceiveProps
     (new_LandingPage
        \<lparr>manifestRequest = None :: (string, string) resource option,
         params = \<lparr>manifestId = Some ''42''\<rparr>,
         location = \<lparr>pathname = ''/manifests/42'', query = \<lparr>q = None, m = None\<rparr>\<rparr>\<rparr>)
     \<lparr>manifestRequest = None,
      params = \<lparr>manifestId = Some ''43''\<rparr>,
      location = \<lparr>pathname = ''/manifests/43'', query = \<lparr>q = None, m = None\<rparr>\<rparr>\<rparr>
     = [ManifestRequest (Some ''43'')] \<and>
   componentWillReceiveProps
     (new_LandingPage
        \<lparr>manifestRequest = None :: (string, string) resource option,
         params = \<lparr>manifestId = Some ''42''\<rparr>,
         location = \<lparr>pathname = ''/manifests/42'', query = \<lparr>q = None, m = None\<rparr>\<rparr>\<rparr>)
     \<lparr>manifestRequest = None,
      params = \<lparr>manifestId = None\<rparr>,
      location = \<lparr>pathname = ''/'', query = \<lparr>q = None, m = None\<rparr>\<rparr>\<rparr>
     = []"
  using
    componentWillReceiveProps_dispatch [of
      "\<lparr>manifestRequest = None :: (string, string) resource option,
        params = \<lparr>manifestId = Some ''43''\<rparr>,
        location = \<lparr>pathname = ''/manifests/43'', query = \<lparr>q = None, m = None\<rparr>\<rparr>\<rparr>"
      "new_LandingPage
        \<lparr>manifestRequest = None :: (string, string) resource option,
         params = \<lparr>manifestId = Some ''42''\<rparr>,
         location = \<lparr>pathname = ''/manifests/42'', query = \<lparr>q = None, m = None\<rparr>\<rparr>\<rparr>"]
    componentWillReceiveProps_dispatch [of
      "\<lparr>manifestRequest = None :: (string, string) resource option,
        params = \<lparr>manifestId = None\<rparr>,
        location = \<lparr>pathname = ''/'', query = \<lparr>q = None, m = None\<rparr>\<rparr>\<rparr>"
      "new_LandingPage
        \<lparr>manifestRequest = None :: (string, string) resource option,
         params = \<lparr>manifestId = Some ''42''\<rparr>,
         location = \<lparr>pathname = ''/manifests/42'', query = \<lparr>q = None, m = None\<rparr>\<rparr>\<rparr>"]
  by (simp add: truthy_def new_LandingPage_def)

text \<open>
  C4. The landing page renders exactly one of three layouts. It renders the landing
  container with the recent-items cascade if and only if \<^verbatim>\<open>q\<close>, \<^verbatim>\<open>m\<close> and the manifest id
  are all absent. When \<^verbatim>\<open>q\<close> or \<^verbatim>\<open>m\<close> is present it renders the manifest-detail row with the
  search-results container and the right panel (the manifest display when an id is bound,
  the click helper otherwise). When an id is bound and \<^verbatim>\<open>q\<close> and \<^verbatim>\<open>m\<close> are absent it renders
  the manifest-detail row without the search-results container, with the manifest display.
  The layout is a function of the current props alone, so after navigating from
  \<^verbatim>\<open>/manifests/42\<close> to \<^verbatim>\<open>/\<close> the cascade is rendered.
\<close>

theorem LandingPage_render_layouts:
  "(LandingPage_render this = Root (location (props this)) (LandingContainer True)
      \<longleftrightarrow> \<not> truthy (q (query (location (props this)))) \<and>
          \<not> truthy (m (query (location (props this)))) \<and>
          \<not> truthy (manifestId (params (props this)))) \<and>
   (truthy (q (query (location (props this)))) \<or> truthy (m (query (location (props this))))
      \<longrightarrow> LandingPage_render this
            = Root (location (props this))
                (ManifestDetail (Some (location (props this)))
                   (if truthy (manifestId (params (props this)))
                    then ManifestDisplay
                           \<lparr>md_manifestRequest = manifestRequest (props this),
                            md_manifestId = manifestId (params (props this))\<rparr>
                    else ClickHelper))) \<and>
   (truthy (manifestId (params (props this))) \<and>
    \<not> truthy (q (query (location (props this)))) \<and>
    \<not> truthy (m (query (location (props this))))
      \<longrightarrow> LandingPage_render this
            = Root (location (props this))
                (ManifestDetail None
                   (ManifestDisplay
                      \<lparr>md_manifestRequest = manifestRequest (props this),
                       md_manifestId = manifestId (params (props this))\<rparr>)))"
  by (auto simp: LandingPage_render_def renderResults_def renderLanding_def
      renderManifest_def Let_def)

theorem LandingPage_render_layouts_witness:
  "LandingPage_render (new_LandingPage (route None None None))
     = Root (location (route None None None)) (LandingContainer True) \<and>
   LandingPage_render (new_LandingPage (route None (Some ''cat'') None))
     = Root (location (route None (Some ''cat'') None))
         (ManifestDetail (Some (location (route None (Some ''cat'') None))) ClickHelper) \<and>
   LandingPage_render (new_LandingPage (route (Some ''42'') None None))
     = Root (location (route (Some ''42'') None None))
         (ManifestDetail None
            (ManifestDisplay \<lparr>md_manifestRequest = None, md_manifestId = Some ''42''\<rparr>))"
  using
    LandingPage_render_layouts [where this = "new_LandingPage (route None None None)"]
    LandingPage_render_layouts [where this = "new_LandingPage (route None (Some ''cat'') None)"]
    LandingPage_render_layouts [where this = "new_LandingPage (route (Some ''42'') None None)"]
  by (simp add: truthy_def new_LandingPage_def)

text \<open>
  C5. The load routine of the search page, called with an absent query (undefined or
  empty), dispatches only the replacement of the location by the bare pathname, and no
  search request. Called with a non-empty query it dispatches the replacement of the
  location by the pathname with the query, and then the search request for the query. A
  search request is dispatched if and only if the query is non-empty.
\<close>

theorem loadQuery_dispatch:
  "(\<not> truthy qu \<longrightarrow> loadQuery this_props qu = [ReplaceState (sp_pathname this_props) None]) \<and>
   (truthy qu \<longrightarrow> loadQuery this_props qu
      = [ReplaceState (sp_pathname this_props) (Some \<lparr>q = qu, m = None\<rparr>), SearchRequest qu]) \<and>
   ((\<exists>x. SearchRequest x \<in> set (loadQuery this_props qu)) \<longleftrightarrow> truthy qu)"
  by (auto simp: loadQuery_def)

theorem loadQuery_dispatch_witness:
  "loadQuery \<lparr>sp_query = None, sp_results = None :: string option, sp_pathname = ''/search''\<rparr>
     (Some []) = [ReplaceState ''/search'' None] \<and>
   loadQuery \<lparr>sp_query = None, sp_results = None :: string option, sp_pathname = ''/search''\<rparr>
     None = [ReplaceState ''/search'' None] \<and>
   loadQuery \<lparr>sp_query = None, sp_results = None :: string option, sp_pathname = ''/search''\<rparr>
     (Some ''cat'')
     = [ReplaceState ''/search'' (Some \<lparr>q = Some ''cat'', m = None\<rparr>),
        SearchRequest (Some ''cat'')]"
  using
    loadQuery_dispatch [where qu = "Some []" and this_props =
      "\<lparr>sp_query = None, sp_results = None :: string option, sp_pathname = ''/search''\<rparr>"]
    loadQuery_dispatch [where qu = None and this_props =
      "\<lparr>sp_query = None, sp_results = None :: string option, sp_pathname = ''/search''\<rparr>"]
    loadQuery_dispatch [where qu = "Some ''cat''" and this_props =
      "\<lparr>sp_query = None, sp_results = None :: string option, sp_pathname = ''/search''\<rparr>"]
  by (simp add: truthy_def)

section \<open>Properties of the selectors\<close>

text \<open>
  C6. For every state and every lookup key, after any history of calls: the landing page's
  selector returns an undefined \<^verbatim>\<open>manifestRequest\<close> exactly when the map of manifests has
  no entry for the manifest id, and the map's resource for the id otherwise; the search
  selectors return undefined results exactly when the search map has no entry for the
  query, and the map's entry otherwise.
\<close>

theorem selector_undefined_iff_no_entry:
  "(manifestRequest (fst (selector (selector_cache h) state ownProps)) = None
      \<longleftrightarrow> manifestId (params ownProps) \<notin> dom (manifests state)) \<and>
   manifestRequest (fst (selector (selector_cache h) state ownProps))
     = manifests state (manifestId (params ownProps)) \<and>
   (fst (getSearchResults (fst (getState_cache hs)) state) = None
      \<longleftrightarrow> getQuery state \<notin> dom (search state)) \<and>
   fst (getSearchResults (fst (getState_cache hs)) state) = search state (getQuery state) \<and>
   sp_results (fst (getState (getState_cache hs) state)) = search state (getQuery state)"
  by (simp add: selector_result getSearchResults_result getState_result domIff)

theorem selector_undefined_iff_no_entry_witness:
  "manifestRequest (fst (selector (selector_cache [(dog_state, route (Some ''43'') None None)])
      cat_state (route (Some ''43'') None None))) = None \<and>
   manifestRequest (fst (selector (selector_cache [(dog_state, route (Some ''43'') None None)])
      cat_state (route (Some ''42'') None None))) = Some loaded_resource \<and>
   fst (getSearchResults (fst (getState_cache [cat_state])) dog_state) = None \<and>
   fst (getSearchResults (fst (getState_cache [dog_state])) cat_state) = Some ''cat results''"
proof -
  note a = selector_undefined_iff_no_entry [where
      h = "[(dog_state, route (Some ''43'') None None)]" and state = cat_state
      and ownProps = "route (Some ''43'') None None" and hs = "[dog_state]"]
  note b = selector_undefined_iff_no_entry [where
      h = "[(dog_state, route (Some ''43'') None None)]" and state = cat_state
      and ownProps = "route (Some ''42'') None None" and hs = "[dog_state]"]
  note c = selector_undefined_iff_no_entry [where
      h = "[(dog_state, route (Some ''43'') None None)]" and state = dog_state
      and ownProps = "route (Some ''42'') None None" and hs = "[cat_state]"]
  have "manifestRequest (fst (selector (selector_cache [(dog_state, route (Some ''43'') None None)])
      cat_state (route (Some ''43'') None None))) = None"
    using a by simp
  moreover have "manifestRequest (fst (selector
      (selector_cache [(dog_state, route (Some ''43'') None None)])
      cat_state (route (Some ''42'') None None))) = Some loaded_resource"
    using b by simp
  moreover have "fst (getSearchResults (fst (getState_cache [cat_state])) dog_state) = None"
    using c by (simp add: getQuery_def)
  moreover have "fst (getSearchResults (fst (getState_cache [dog_state])) cat_state)
      = Some ''cat results''"
    using a by (simp add: getQuery_def)
  ultimately show ?thesis by blast
qed

text \<open>
  C7. The selectors are deterministic in their declared inputs, whatever calls came
  before: two invocations that agree on the manifest id and on the map's entry for it give
  equal results of the landing page's selector; two invocations that agree on the query and
  on the search map's entry for it give equal search results and equal \<^verbatim>\<open>query\<close> and
  \<^verbatim>\<open>results\<close> props, and equal props altogether when the pathname, the third declared
  input of \<^verbatim>\<open>getState\<close>, agrees too. A selector returns its result and its own cache only:
  it dispatches nothing and leaves the state as it is.
\<close>

theorem selectors_deterministic:
  "(manifestId (params p1) = manifestId (params p2) \<and>
    manifests s1 (manifestId (params p1)) = manifests s2 (manifestId (params p2))
      \<longrightarrow> fst (selector (selector_cache h1) s1 p1) = fst (selector (selector_cache h2) s2 p2)) \<and>
   (getQuery s1 = getQuery s2 \<and> search s1 (getQuery s1) = search s2 (getQuery s2)
      \<longrightarrow> fst (getSearchResults (fst (getState_cache hs1)) s1)
            = fst (getSearchResults (fst (getState_cache hs2)) s2) \<and>
          sp_query (fst (getState (getState_cache hs1) s1))
            = sp_query (fst (getState (getState_cache hs2) s2)) \<and>
          sp_results (fst (getState (getState_cache hs1) s1))
            = sp_results (fst (getState (getState_cache hs2) s2))) \<and>
   (getQuery s1 = getQuery s2 \<and> search s1 (getQuery s1) = search s2 (getQuery s2) \<and>
    pathname (router_location (router s1)) = pathname (router_location (router s2))
      \<longrightarrow> fst (getState (getState_cache hs1) s1) = fst (getState (getState_cache hs2) s2))"
  by (auto simp: selector_result getSearchResults_result getState_result)

theorem selectors_deterministic_witness:
  "fst (selector (selector_cache []) cat_state (route (Some ''42'') None None))
     = fst (selector (selector_cache [(dog_state, route (Some ''43'') None None)])
         dog_state (route (Some ''42'') (Some ''dog'') None)) \<and>
   fst (getState (getState_cache []) cat_state)
     = fst (getState (getState_cache [dog_state, cat_state]) cat_state)"
proof -
  note a = selectors_deterministic [where ?p1.0 = "route (Some ''42'') None None"
      and ?p2.0 = "route (Some ''42'') (Some ''dog'') None" and ?s1.0 = cat_state
      and ?s2.0 = dog_state and ?h1.0 = "[]"
      and ?h2.0 = "[(dog_state, route (Some ''43'') None None)]"
      and ?hs1.0 = "[]" and ?hs2.0 = "[dog_state, cat_state]"]
  note b = selectors_deterministic [where ?p1.0 = "route (Some ''42'') None None"
      and ?p2.0 = "route (Some ''42'') (Some ''dog'') None" and ?s1.0 = cat_state
      and ?s2.0 = cat_state and ?h1.0 = "[]"
      and ?h2.0 = "[(dog_state, route (Some ''43'') None None)]"
      and ?hs1.0 = "[]" and ?hs2.0 = "[dog_state, cat_state]"]
  have "fst (selector (selector_cache []) cat_state (route (Some ''42'') None None))
     = fst (selector (selector_cache [(dog_state, route (Some ''43'') None None)])
         dog_state (route (Some ''42'') (Some ''dog'') None))"
    using a by simp
  moreover have "fst (getState (getState_cache []) cat_state)
     = fst (getState (getState_cache [dog_state, cat_state]) cat_state)"
    using b by simp
  ultimately show ?thesis by blast
qed

section \<open>Properties of the presentational components\<close>

text \<open>
  C9. The cascade item label renders the "Loading..." placeholder when the manifest is
  absent and the label otherwise. The thumbnail renders its container with no image when
  the source is not a string and yields no image URL: the helper resolves nothing, resolves
  an object without a URL, or the source is falsy. Neither component throws: the label and
  the thumbnail of a string or falsy source always return an element, and the thumbnail of
  an image description returns one whenever the helper returns.
\<close>

theorem presentational_components_total:
  "(manifest = None
      \<longrightarrow> ManifestCascadeItemLabel manifest = ItemLabel (Info ''h4 text-center'' ''Loading...'')) \<and>
   (manifest \<noteq> None
      \<longrightarrow> ManifestCascadeItemLabel manifest = ItemLabel (Info ''h4'' ''[Manifest things]'')) \<and>
   (getImageUrlWithMaxWidth ob MAX_THUMBNAIL_WIDTH = Inr None
      \<longrightarrow> Thumbnail getImageUrlWithMaxWidth (ObjectSrc ob) = Inr (ThumbnailDiv None)) \<and>
   (getImageUrlWithMaxWidth ob MAX_THUMBNAIL_WIDTH = Inr (Some res) \<and> \<not> truthy (url res)
      \<longrightarrow> Thumbnail getImageUrlWithMaxWidth (ObjectSrc ob) = Inr (ThumbnailDiv None)) \<and>
   Thumbnail getImageUrlWithMaxWidth FalsySrc = Inr (ThumbnailDiv None) \<and>
   (\<exists>t. Thumbnail getImageUrlWithMaxWidth (StringSrc s) = Inr t) \<and>
   ((\<forall>o'. src = ObjectSrc o' \<longrightarrow> (\<exists>r. getImageUrlWithMaxWidth o' MAX_THUMBNAIL_WIDTH = Inr r))
      \<longrightarrow> (\<exists>t. Thumbnail getImageUrlWithMaxWidth src = Inr t))"
  by (auto simp: ManifestCascadeItemLabel_def Thumbnail_def Let_def
      split: thumbnail_src.splits sum.splits option.splits)

theorem presentational_components_total_witness:
  "ManifestCascadeItemLabel (None :: string option)
     = ItemLabel (Info ''h4 text-center'' ''Loading...'') \<and>
   ManifestCascadeItemLabel (Some ''manifest'') = ItemLabel (Info ''h4'' ''[Manifest things]'') \<and>
   Thumbnail (\<lambda>ob w. Inr None :: string + resolved option) (ObjectSrc ''image'')
     = Inr (ThumbnailDiv None) \<and>
   Thumbnail (\<lambda>ob w. Inr (Some \<lparr>url = None\<rparr>) :: string + resolved option) (ObjectSrc ''image'')
     = Inr (ThumbnailDiv None) \<and>
   (\<exists>t. Thumbnail (\<lambda>ob w. Inr (Some \<lparr>url = Some ob\<rparr>) :: string + resolved option)
           (ObjectSrc ''image'') = Inr t)"
proof -
  note a = presentational_components_total [where manifest = "None :: string option"
      and getImageUrlWithMaxWidth = "\<lambda>ob w. Inr None :: string + resolved option"
      and ob = "''image''" and res = "\<lparr>url = None\<rparr>" and s = "''x''"
      and src = "ObjectSrc ''image''"]
  note b = presentational_components_total [where manifest = "Some ''manifest''"
      and getImageUrlWithMaxWidth =
        "\<lambda>ob w. Inr (Some \<lparr>url = None\<rparr>) :: string + resolved option"
      and ob = "''image''" and res = "\<lparr>url = None\<rparr>" and s = "''x''"
      and src = "ObjectSrc ''image''"]
  note c = presentational_components_total [where manifest = "Some ''manifest''"
      and getImageUrlWithMaxWidth =
        "\<lambda>ob w. Inr (Some \<lparr>url = Some ob\<rparr>) :: string + resolved option"
      and ob = "''image''" and res = "\<lparr>url = None\<rparr>" and s = "''x''"
      and src = "ObjectSrc ''image''"]
  show ?thesis
    using a b c by (simp add: truthy_def)
qed

end
